theory Spec2Isabelle
  imports
    Complex_Main
    "HOL-Library.Char_ord"
    "HOL-Library.List_Lexorder"
    "HOL-Library.Option_ord"
begin

section \<open>The table \<open>AllCars\<close>\<close>

text \<open>
  \<^verbatim>\<open>app.py\<close> is a Flask application over one SQLite table, \<open>AllCars\<close>. The schema is
  not part of the repository; the columns are taken as the specification describes
  them: \<open>ModelYear\<close> is text (or NULL), \<open>Make\<close> and \<open>Model\<close> are text, \<open>Score\<close> and
  \<open>Certainty\<close> are decimals or NULL. Text is a list of bytes (UTF-8), a NULL is \<open>None\<close>.
  The table is the list of its rows in the order in which SQLite scans them.
\<close>

type_synonym decimal = rat

record VehicleRecord =
  ModelYear :: "string option"
  Make :: string
  Model :: string
  Score :: "decimal option"
  Certainty :: "decimal option"

section \<open>The SQL functions the queries use\<close>

text \<open>
  \<open>TRIM(X)\<close> with one argument removes the space character (0x20), and no other
  character, from both ends of \<open>X\<close>; \<open>TRIM(NULL)\<close> is NULL.
\<close>

definition sql_trim :: "string \<Rightarrow> string" where
  "sql_trim s =
     rev (dropWhile (\<lambda>c. c = CHR '' '') (rev (dropWhile (\<lambda>c. c = CHR '' '') s)))"

definition TRIM :: "string option \<Rightarrow> string option" where
  "TRIM x = map_option sql_trim x"

text \<open>
  \<open>CAST(X AS INTEGER)\<close> on text: leading white space is skipped (space, tab, line feed,
  vertical tab, form feed, carriage return), then one optional sign, then the longest
  run of decimal digits is read and the rest of the text is ignored. Text with no such
  digits gives 0. A value beyond the signed 64-bit range gives the nearest bound.
  \<open>CAST(NULL AS INTEGER)\<close> is NULL.
\<close>

definition sql_isspace :: "char \<Rightarrow> bool" where
  "sql_isspace c \<longleftrightarrow> c \<in> set [CHR 0x20, CHR 0x09, CHR 0x0A, CHR 0x0B, CHR 0x0C, CHR 0x0D]"

definition is_digit :: "char \<Rightarrow> bool" where
  "is_digit c \<longleftrightarrow> c \<in> set ''0123456789''"

definition digit_val :: "char \<Rightarrow> nat" where
  "digit_val c = of_char c - 48"

definition decimal_value :: "string \<Rightarrow> nat" where
  "decimal_value ds = foldl (\<lambda>u c. u * 10 + digit_val c) 0 ds"

definition LARGEST_INT64 :: int where
  "LARGEST_INT64 = 9223372036854775807"

definition SMALLEST_INT64 :: int where
  "SMALLEST_INT64 = - 9223372036854775808"

definition cast_integer :: "string \<Rightarrow> int" where
  "cast_integer s =
     (let z = dropWhile sql_isspace s;
          neg = (z \<noteq> [] \<and> hd z = CHR ''-'');
          z' = (if z \<noteq> [] \<and> (hd z = CHR ''-'' \<or> hd z = CHR ''+'') then tl z else z);
          u = int (decimal_value (takeWhile is_digit z'))
      in if neg then max SMALLEST_INT64 (- u) else min LARGEST_INT64 u)"

definition CAST_INTEGER :: "string option \<Rightarrow> int option" where
  "CAST_INTEGER x = map_option cast_integer x"

text \<open>
  \<open>ROUND(X, 1)\<close> rounds to one digit after the decimal point, a half away from zero;
  \<open>ROUND(NULL, 1)\<close> is NULL and \<open>ROUND\<close> of a value is a value. A stored decimal is
  taken as an exact rational number here. SQLite computes on binary floating-point
  numbers, where a tenth has no exact representation: what \<open>sql_round1\<close> returns is the
  decimal the result stands for, not its bits, and nothing below is a statement about
  the precision of a rounded value.
\<close>

definition sql_round1 :: "decimal \<Rightarrow> decimal" where
  "sql_round1 x =
     (if 0 \<le> x then of_int \<lfloor>x * 10 + 1 / 2\<rfloor> / 10
      else - (of_int \<lfloor>- x * 10 + 1 / 2\<rfloor> / 10))"

definition ROUND1 :: "decimal option \<Rightarrow> decimal option" where
  "ROUND1 x = map_option sql_round1 x"

section \<open>The SELECT statements\<close>

text \<open>
  A comparison with NULL is not true, so a row whose \<open>ModelYear\<close> is NULL passes no
  \<open>CAST(TRIM(ModelYear) AS INTEGER) = ?\<close>. \<open>DISTINCT\<close> keeps one copy of each value and
  \<open>ORDER BY\<close> sorts them: integers numerically with NULL first, text by its bytes
  (the BINARY collation), so \<open>DESC\<close> is the reverse of the ascending order.
\<close>

definition gradeable :: "VehicleRecord \<Rightarrow> bool" where
  "gradeable r \<longleftrightarrow> Score r \<noteq> None \<and> Certainty r \<noteq> None"

definition year_matches :: "int \<Rightarrow> VehicleRecord \<Rightarrow> bool" where
  "year_matches y r \<longleftrightarrow> CAST_INTEGER (TRIM (ModelYear r)) = Some y"

definition select_years :: "VehicleRecord list \<Rightarrow> int option list" where
  "select_years rows =
     rev (sort (remdups
       [CAST_INTEGER (TRIM (ModelYear r)). r \<leftarrow> rows,
          gradeable r \<and> ModelYear r \<noteq> None \<and> TRIM (ModelYear r) \<noteq> Some '''']))"

definition select_makes :: "int \<Rightarrow> VehicleRecord list \<Rightarrow> string list" where
  "select_makes y rows =
     sort (remdups [Make r. r \<leftarrow> rows, year_matches y r \<and> gradeable r])"

definition select_models :: "int \<Rightarrow> string \<Rightarrow> VehicleRecord list \<Rightarrow> string list" where
  "select_models y mk rows =
     sort (remdups [Model r. r \<leftarrow> rows, year_matches y r \<and> Make r = mk \<and> gradeable r])"

definition select_grade ::
  "int \<Rightarrow> string \<Rightarrow> string \<Rightarrow> VehicleRecord list \<Rightarrow> (decimal option \<times> decimal option) option"
where
  "select_grade y mk md rows =
     map_option (\<lambda>r. (ROUND1 (Score r), ROUND1 (Certainty r)))
       (find (\<lambda>r. year_matches y r \<and> Make r = mk \<and> Model r = md \<and> gradeable r) rows)"



section \<open>The year of a record as the specification reads it\<close>

text \<open>
  The specification's words: the year-filtering predicate parses the stored year text
  by trimming white space and converting to an integer; records whose year text is
  absent, empty after trimming, or non-numeric are excluded from every year-scoped
  query. Written out: white space is removed from both ends, and what is left must be
  an optional sign followed by decimal digits, at least one; then the year is that
  integer. Anything else, and NULL, is no year. This is the reading against which the
  queries above are compared; it is not taken from the code.
\<close>

definition spec_strip :: "string \<Rightarrow> string" where
  "spec_strip s = rev (dropWhile sql_isspace (rev (dropWhile sql_isspace s)))"

definition spec_integer_text :: "string \<Rightarrow> bool" where
  "spec_integer_text s \<longleftrightarrow>
     (case s of
        [] \<Rightarrow> False
      | c # cs \<Rightarrow>
          if c = CHR ''-'' \<or> c = CHR ''+'' then cs \<noteq> [] \<and> list_all is_digit cs
          else list_all is_digit (c # cs))"

definition spec_integer_value :: "string \<Rightarrow> int" where
  "spec_integer_value s =
     (case s of
        [] \<Rightarrow> 0
      | c # cs \<Rightarrow>
          if c = CHR ''-'' then - int (decimal_value cs)
          else if c = CHR ''+'' then int (decimal_value cs)
          else int (decimal_value (c # cs)))"

definition spec_parse_year :: "string option \<Rightarrow> int option" where
  "spec_parse_year x =
     (case x of
        None \<Rightarrow> None
      | Some t \<Rightarrow>
          if spec_integer_text (spec_strip t) then Some (spec_integer_value (spec_strip t))
          else None)"

definition spec_year_matches :: "int \<Rightarrow> VehicleRecord \<Rightarrow> bool" where
  "spec_year_matches y r \<longleftrightarrow> spec_parse_year (ModelYear r) = Some y"

text \<open>A record with a numeric year: the year text is absent, or it is a year in the
  sense above and that year fits a signed 64-bit integer.\<close>

definition numeric_year :: "VehicleRecord \<Rightarrow> bool" where
  "numeric_year r \<longleftrightarrow>
     (case ModelYear r of
        None \<Rightarrow> True
      | Some t \<Rightarrow>
          (case spec_parse_year (Some t) of
             None \<Rightarrow> False
           | Some y \<Rightarrow> SMALLEST_INT64 \<le> y \<and> y \<le> LARGEST_INT64))"

section \<open>The request and the response\<close>

text \<open>
  \<open>request.args\<close> maps a parameter name to its first value. \<open>args.get(k, type=conv)\<close> is
  \<open>None\<close> when \<open>k\<close> is missing and when \<open>conv(value)\<close> raises \<open>ValueError\<close>; the
  conversion is an argument of \<open>get_int\<close>, and of the handlers, which call it with
  Python's \<open>int\<close>. Every statement about a handler below holds for any conversion.
\<close>

type_synonym args = "string \<rightharpoonup> string"

definition get_int :: "(string \<Rightarrow> int option) \<Rightarrow> args \<Rightarrow> string \<Rightarrow> int option" where
  "get_int conv a k = (case a k of None \<Rightarrow> None | Some v \<Rightarrow> conv v)"

definition get_str :: "args \<Rightarrow> string \<Rightarrow> string option" where
  "get_str a k = a k"

text \<open>
  \<open>py_int\<close> is Python's \<open>int\<close> on ASCII text, used to run the examples: white space
  (0x09 to 0x0D, 0x20) is stripped from both ends, then come one optional sign and
  decimal digits, where single underscores may stand between two digits; text with
  more than 4300 digits is refused (the default limit of CPython 3.11); the integers
  are unbounded. \<open>None\<close> stands for \<open>ValueError\<close>.
\<close>

definition py_isspace :: "char \<Rightarrow> bool" where
  "py_isspace c \<longleftrightarrow>
     c \<in> set [CHR 0x20, CHR 0x09, CHR 0x0A, CHR 0x0B, CHR 0x0C, CHR 0x0D]"

definition py_strip :: "string \<Rightarrow> string" where
  "py_strip s = rev (dropWhile py_isspace (rev (dropWhile py_isspace s)))"

fun digits_ok :: "string \<Rightarrow> bool" where
  "digits_ok [] = False"
| "digits_ok [c] = is_digit c"
| "digits_ok (c # d # cs) =
     (is_digit c \<and> (if d = CHR ''_'' then digits_ok cs else digits_ok (d # cs)))"

definition py_int :: "string \<Rightarrow> int option" where
  "py_int s =
     (let t = py_strip s;
          neg = (t \<noteq> [] \<and> hd t = CHR ''-'');
          ds = (if t \<noteq> [] \<and> (hd t = CHR ''-'' \<or> hd t = CHR ''+'') then tl t else t);
          digits = filter (\<lambda>c. c \<noteq> CHR ''_'') ds
      in if digits_ok ds \<and> length digits \<le> 4300
         then Some ((if neg then - 1 else 1) * int (decimal_value digits))
         else None)"

text \<open>\<open>not make\<close> holds of \<open>None\<close> and of the empty string, and of no other string.\<close>

definition py_not :: "string option \<Rightarrow> bool" where
  "py_not v \<longleftrightarrow> v = None \<or> v = Some ''''"

datatype json =
    JNull
  | JBool bool
  | JInt int
  | JNum decimal
  | JStr string
  | JArr "json list"
  | JObj "(string \<times> json) list"

text \<open>A response is the body given to \<open>jsonify\<close> and the status code (200 when the
  handler returns the body alone).\<close>

type_synonym response = "json \<times> nat"

section \<open>The data source\<close>

text \<open>
  \<open>DB_PATH\<close> names a file. Either it cannot be opened (\<open>sqlite3.connect\<close> raises), or
  it is a database without a table \<open>AllCars\<close> (\<open>execute\<close> raises when it prepares a
  statement on that table), or it holds the table. \<open>master\<close> is what
  \<open>SELECT name FROM sqlite_master WHERE type='table'\<close> returns; in a state that stands
  for a file, \<open>AllCars\<close> is among these names exactly when the table is there.
  \<open>executed\<close> is the list of the statements handed to \<open>execute\<close>, with their
  parameters, in order.
\<close>

datatype datasource = NoFile | NoTable | AllCars "VehicleRecord list"

text \<open>
  The statements of \<open>app.py\<close> are the seven SELECTs. SQLite runs whatever statement it
  is handed; \<open>Insert\<close> and \<open>DeleteAll\<close> stand for the statements that change the
  table (\<open>INSERT INTO AllCars\<close>, \<open>DELETE FROM AllCars\<close>).
\<close>

datatype sql =
    SelectYears
  | SelectMakes int
  | SelectModels int string
  | SelectGrade int string string
  | SelectTables
  | CountAll
  | CountReady
  | Insert VehicleRecord
  | DeleteAll

fun writes :: "sql \<Rightarrow> bool" where
  "writes (Insert r) = True"
| "writes DeleteAll = True"
| "writes q = False"

fun table_after :: "sql \<Rightarrow> VehicleRecord list \<Rightarrow> VehicleRecord list" where
  "table_after (Insert r) rows = rows @ [r]"
| "table_after DeleteAll rows = []"
| "table_after q rows = rows"

datatype exn = OperationalError string | OverflowError string


record world =
  DB_PATH :: string
  source :: datasource
  master :: "string list"
  executed :: "sql list"

text \<open>
  A connection is opened in a mode: the \<open>mode=ro\<close> of the URI makes it read-only.
  \<open>get_db\<close> builds the URI \<open>file:\<dots>?mode=ro\<close> from \<open>DB_PATH\<close>.
\<close>

datatype connection = ReadOnly | ReadWrite

definition connect :: "connection \<Rightarrow> world \<Rightarrow> exn + connection" where
  "connect m w =
     (case source w of
        NoFile \<Rightarrow> Inl (OperationalError ''unable to open database file'')
      | d \<Rightarrow> Inr m)"

definition get_db :: "world \<Rightarrow> exn + connection" where
  "get_db w = connect ReadOnly w"

fun bound_int :: "sql \<Rightarrow> int option" where
  "bound_int (SelectMakes y) = Some y"
| "bound_int (SelectModels y mk) = Some y"
| "bound_int (SelectGrade y mk md) = Some y"
| "bound_int q = None"

definition in_int64 :: "int \<Rightarrow> bool" where
  "in_int64 y \<longleftrightarrow> SMALLEST_INT64 \<le> y \<and> y \<le> LARGEST_INT64"

definition bindable :: "sql \<Rightarrow> bool" where
  "bindable q \<longleftrightarrow> (case bound_int q of None \<Rightarrow> True | Some y \<Rightarrow> in_int64 y)"

text \<open>
  \<open>execute db q sel\<close> runs the statement \<open>q\<close> on the table \<open>AllCars\<close> over the connection
  \<open>db\<close>; \<open>sel\<close> gives the rows that \<open>q\<close> returns. The statement is prepared (which
  fails without the table), its parameters are bound (which fails with
  \<open>OverflowError\<close> for a Python integer that does not fit SQLite's signed 64-bit
  INTEGER), and it is run: a statement that changes the table is refused on a
  read-only connection and changes the file on any other.
\<close>

definition execute ::
  "connection \<Rightarrow> sql \<Rightarrow> (VehicleRecord list \<Rightarrow> 'a) \<Rightarrow> world \<Rightarrow> (exn + 'a) \<times> world"
where
  "execute db q sel w =
     (let w' = w\<lparr>executed := executed w @ [q]\<rparr>
      in case source w of
           AllCars rows \<Rightarrow>
             if \<not> bindable q
             then (Inl (OverflowError ''Python int too large to convert to SQLite INTEGER''), w')
             else if \<not> writes q then (Inr (sel rows), w')
             else if db = ReadOnly
             then (Inl (OperationalError ''attempt to write a readonly database''), w')
             else (Inr (sel rows), w'\<lparr>source := AllCars (table_after q rows)\<rparr>)
         | NoTable \<Rightarrow> (Inl (OperationalError ''no such table: AllCars''), w')
         | NoFile \<Rightarrow> (Inl (OperationalError ''unable to open database file''), w'))"


section \<open>The handlers\<close>

definition years :: "world \<Rightarrow> response \<times> world" where
  "years w =
     (case get_db w of
        Inl e \<Rightarrow> ((JArr [], 500), w)
      | Inr db \<Rightarrow>
          (case execute db SelectYears select_years w of
             (Inl e, w') \<Rightarrow> ((JArr [], 500), w')
           | (Inr rows, w') \<Rightarrow> ((JArr [JInt y. Some y \<leftarrow> rows], 200), w')))"

definition makes :: "(string \<Rightarrow> int option) \<Rightarrow> args \<Rightarrow> world \<Rightarrow> response \<times> world" where
  "makes conv a w =
     (case get_int conv a ''year'' of
        None \<Rightarrow> ((JArr [], 200), w)
      | Some year \<Rightarrow>
          (case get_db w of
             Inl e \<Rightarrow> ((JArr [], 500), w)
           | Inr db \<Rightarrow>
               (case execute db (SelectMakes year) (select_makes year) w of
                  (Inl e, w') \<Rightarrow> ((JArr [], 500), w')
                | (Inr rows, w') \<Rightarrow> ((JArr (map JStr rows), 200), w'))))"

definition models :: "(string \<Rightarrow> int option) \<Rightarrow> args \<Rightarrow> world \<Rightarrow> response \<times> world" where
  "models conv a w =
     (let year = get_int conv a ''year''; make = get_str a ''make''
      in if year = None \<or> py_not make then ((JArr [], 200), w)
         else
           (case get_db w of
              Inl e \<Rightarrow> ((JArr [], 500), w)
            | Inr db \<Rightarrow>
                (case execute db (SelectModels (the year) (the make))
                        (select_models (the year) (the make)) w of
                   (Inl e, w') \<Rightarrow> ((JArr [], 500), w')
                 | (Inr rows, w') \<Rightarrow> ((JArr (map JStr rows), 200), w'))))"

definition py_float :: "decimal option \<Rightarrow> json" where
  "py_float v = (case v of None \<Rightarrow> JNull | Some x \<Rightarrow> JNum x)"

definition grade :: "(string \<Rightarrow> int option) \<Rightarrow> args \<Rightarrow> world \<Rightarrow> response \<times> world" where
  "grade conv a w =
     (let year = get_int conv a ''year''; make = get_str a ''make'';
          model = get_str a ''model''
      in if year = None \<or> py_not make \<or> py_not model
         then ((JObj [(''error'', JStr ''Missing params'')], 400), w)
         else
           (case get_db w of
              Inl e \<Rightarrow> ((JObj [(''error'', JStr ''Server error'')], 500), w)
            | Inr db \<Rightarrow>
                (case execute db (SelectGrade (the year) (the make) (the model))
                        (select_grade (the year) (the make) (the model)) w of
                   (Inl e, w') \<Rightarrow> ((JObj [(''error'', JStr ''Server error'')], 500), w')
                 | (Inr None, w') \<Rightarrow> ((JObj [(''error'', JStr ''Not found'')], 404), w')
                 | (Inr (Some (s, c)), w') \<Rightarrow>
                     ((JObj [(''year'', JInt (the year)),
                             (''make'', JStr (the make)),
                             (''model'', JStr (the model)),
                             (''score'', py_float s),
                             (''certainty'', py_float c)], 200), w'))))"











text \<open>The \<open>try\<close> block of a handler raises when \<open>get_db\<close> or \<open>execute\<close> does.\<close>

definition raises :: "sql \<Rightarrow> world \<Rightarrow> bool" where
  "raises q w \<longleftrightarrow>
     (case get_db w of
        Inl e \<Rightarrow> True
      | Inr db \<Rightarrow> (case fst (execute db q (\<lambda>rows. ()) w) of Inl e \<Rightarrow> True | Inr u \<Rightarrow> False))"

section \<open>Example tables and requests\<close>

text \<open>The record of the specification's example, another with a numeric year, a
  record whose year is not a number, one whose year is blank, and one whose make is a
  single space.\<close>

definition civic :: VehicleRecord where
  "civic = \<lparr>ModelYear = Some '' 2018 '', Make = ''Honda'', Model = ''Civic'',
             Score = Some (783 / 100), Certainty = Some (426 / 100)\<rparr>"

definition accord :: VehicleRecord where
  "accord = \<lparr>ModelYear = Some ''2019'', Make = ''Honda'', Model = ''Accord'',
              Score = Some 8, Certainty = Some 5\<rparr>"

definition rio :: VehicleRecord where
  "rio = \<lparr>ModelYear = Some ''unknown'', Make = ''Kia'', Model = ''Rio'',
           Score = Some 6, Certainty = Some 3\<rparr>"

definition golf :: VehicleRecord where
  "golf = \<lparr>ModelYear = Some ''  '', Make = ''VW'', Model = ''Golf'',
            Score = Some 5, Certainty = Some 4\<rparr>"

definition blank_make :: VehicleRecord where
  "blank_make = \<lparr>ModelYear = Some ''2018'', Make = '' '', Model = ''X'',
            Score = Some 5, Certainty = Some 4\<rparr>"

definition fresh :: "VehicleRecord list \<Rightarrow> world" where
  "fresh rows =
     \<lparr>DB_PATH = ''GraderRater.db'', source = AllCars rows, master = [''AllCars''],
      executed = []\<rparr>"

definition unopened :: world where
  "unopened = \<lparr>DB_PATH = ''GraderRater.db'', source = NoFile, master = [], executed = []\<rparr>"

text \<open>Requests: the example of the specification, one without \<open>model\<close>, one whose
  year is not a number, one for a combination the table does not have, one whose
  year is \<open>2^63\<close>, one for the year 0, and one whose make is a single space.\<close>

definition civic_args :: args where
  "civic_args = [''year'' \<mapsto> ''2018'', ''make'' \<mapsto> ''Honda'', ''model'' \<mapsto> ''Civic'']"

definition no_model_args :: args where
  "no_model_args = [''year'' \<mapsto> ''2018'', ''make'' \<mapsto> ''Honda'']"

definition bad_year_args :: args where
  "bad_year_args = [''year'' \<mapsto> ''20x8'', ''make'' \<mapsto> ''Honda'', ''model'' \<mapsto> ''Civic'']"



definition year_zero_args :: args where
  "year_zero_args = [''year'' \<mapsto> ''0'', ''make'' \<mapsto> ''Kia'', ''model'' \<mapsto> ''Rio'']"


section \<open>Auxiliary facts\<close>

lemmas sql_defs =
  TRIM_def CAST_INTEGER_def sql_trim_def cast_integer_def sql_isspace_def is_digit_def
  decimal_value_def digit_val_def LARGEST_INT64_def SMALLEST_INT64_def ROUND1_def
  sql_round1_def gradeable_def year_matches_def

lemmas spec_defs =
  spec_year_matches_def spec_parse_year_def spec_strip_def spec_integer_text_def
  spec_integer_value_def sql_isspace_def is_digit_def decimal_value_def digit_val_def

lemmas py_defs =
  get_int_def get_str_def py_int_def py_strip_def py_isspace_def py_not_def py_float_def
  is_digit_def decimal_value_def digit_val_def

lemmas db_defs =
  get_db_def connect_def execute_def bindable_def in_int64_def LARGEST_INT64_def
  SMALLEST_INT64_def fresh_def

lemma comprehension_filter: "[f r. r \<leftarrow> xs, P r] = map f (filter P xs)"
  by (induction xs) simp_all

lemma somes_map: "[f y. Some y \<leftarrow> xs] = map f [y. Some y \<leftarrow> xs]"
  by (induction xs) (simp_all split: option.split)

lemma set_somes: "set [y. Some y \<leftarrow> xs] = {y. Some y \<in> set xs}"
  by (induction xs) (auto split: option.splits)

lemma somes_desc:
  "sorted_wrt (\<lambda>x y. y < x) xs \<Longrightarrow> sorted_wrt (\<lambda>x y. y < x) [y::int. Some y \<leftarrow> xs]"
  by (induction xs) (auto simp: set_somes split: option.splits)

lemma desc_rev_sort_remdups:
  "sorted_wrt (\<lambda>x y. y < x) (rev (sort (remdups (xs::'a::linorder list))))"
  by (simp add: sorted_wrt_rev strict_sorted_iff)

subsection \<open>The connection and \<open>execute\<close>\<close>

lemma get_db_table: "source w = AllCars rows \<Longrightarrow> get_db w = Inr ReadOnly"
  by (simp add: get_db_def connect_def)

lemma get_db_no_file:
  "source w = NoFile \<Longrightarrow> get_db w = Inl (OperationalError ''unable to open database file'')"
  by (simp add: get_db_def connect_def)

lemma get_db_no_table: "source w = NoTable \<Longrightarrow> get_db w = Inr ReadOnly"
  by (simp add: get_db_def connect_def)


lemma execute_select:
  assumes "source w = AllCars rows" and "\<not> writes q"
  shows "execute db q sel w =
           (if bindable q then Inr (sel rows)
            else Inl (OverflowError ''Python int too large to convert to SQLite INTEGER''),
            w\<lparr>executed := executed w @ [q]\<rparr>)"
  using assms by (simp add: execute_def Let_def)

lemma execute_no_table:
  assumes "source w = NoTable"
  shows "execute db q sel w =
           (Inl (OperationalError ''no such table: AllCars''), w\<lparr>executed := executed w @ [q]\<rparr>)"
  using assms by (simp add: execute_def Let_def)

lemma execute_log: "executed (snd (execute db q sel w)) = executed w @ [q]"
  by (cases "source w") (simp_all add: execute_def Let_def)

subsection \<open>The handlers on a readable table\<close>

lemma years_table:
  "source w = AllCars rows \<Longrightarrow>
   years w = ((JArr [JInt y. Some y \<leftarrow> select_years rows], 200),
              w\<lparr>executed := executed w @ [SelectYears]\<rparr>)"
  by (simp add: years_def get_db_table execute_select bindable_def)

lemma set_select_years:
  "set (select_years rows) =
     {Some (cast_integer (sql_trim t)) | r t.
        r \<in> set rows \<and> gradeable r \<and> ModelYear r = Some t \<and> sql_trim t \<noteq> ''''}"
    (is "?L = ?R")
proof (rule set_eqI)
  fix v
  have "v \<in> ?L \<longleftrightarrow> (\<exists>r \<in> set rows. gradeable r \<and> ModelYear r \<noteq> None \<and>
           TRIM (ModelYear r) \<noteq> Some '''' \<and> v = CAST_INTEGER (TRIM (ModelYear r)))"
    by (auto simp: select_years_def comprehension_filter)
  also have "\<dots> \<longleftrightarrow> v \<in> ?R"
    by (fastforce simp: TRIM_def CAST_INTEGER_def)
  finally show "v \<in> ?L \<longleftrightarrow> v \<in> ?R" .
qed

lemma cast_integer_in_int64: "in_int64 (cast_integer s)"
  by (simp add: cast_integer_def in_int64_def Let_def LARGEST_INT64_def SMALLEST_INT64_def)

lemma year_matches_in_int64: "year_matches y r \<Longrightarrow> in_int64 y"
  by (auto simp: year_matches_def CAST_INTEGER_def cast_integer_in_int64)

lemma null_year_never_matches: "ModelYear r = None \<Longrightarrow> \<not> year_matches y r"
  by (simp add: year_matches_def CAST_INTEGER_def TRIM_def)

lemma select_makes_out_of_range:
  assumes "\<not> in_int64 y"
  shows "select_makes y rows = []"
proof -
  have "filter (\<lambda>r. year_matches y r \<and> gradeable r) rows = []"
    using assms by (auto simp: filter_empty_conv dest: year_matches_in_int64)
  then show ?thesis
    by (simp add: select_makes_def comprehension_filter)
qed

lemma select_models_out_of_range:
  assumes "\<not> in_int64 y"
  shows "select_models y mk rows = []"
proof -
  have "filter (\<lambda>r. year_matches y r \<and> Make r = mk \<and> gradeable r) rows = []"
    using assms by (auto simp: filter_empty_conv dest: year_matches_in_int64)
  then show ?thesis
    by (simp add: select_models_def comprehension_filter)
qed

lemma get_int_None_iff:
  "get_int conv a k = None \<longleftrightarrow> a k = None \<or> (\<exists>v. a k = Some v \<and> conv v = None)"
  by (simp add: get_int_def split: option.split)

lemma makes_no_year:
  "get_int conv a ''year'' = None \<Longrightarrow> makes conv a w = ((JArr [], 200), w)"
  by (simp add: makes_def)

lemma makes_table:
  assumes "get_int conv a ''year'' = Some y" and "source w = AllCars rows"
  shows "makes conv a w =
           ((JArr (map JStr (select_makes y rows)), if in_int64 y then 200 else 500),
            w\<lparr>executed := executed w @ [SelectMakes y]\<rparr>)"
  using assms
  by (simp add: makes_def get_db_table execute_select bindable_def select_makes_out_of_range)

lemma set_select_makes:
  "set (select_makes y rows) = {Make r | r. r \<in> set rows \<and> gradeable r \<and> year_matches y r}"
  by (auto simp: select_makes_def comprehension_filter)


lemma models_table:
  assumes "get_int conv a ''year'' = Some y" and "a ''make'' = Some mk" and "mk \<noteq> ''''"
    and "source w = AllCars rows"
  shows "models conv a w =
           ((JArr (map JStr (select_models y mk rows)), if in_int64 y then 200 else 500),
            w\<lparr>executed := executed w @ [SelectModels y mk]\<rparr>)"
  using assms
  by (simp add: models_def get_str_def py_not_def get_db_table execute_select bindable_def
      select_models_out_of_range)


lemma grade_guard:
  assumes "get_int conv a ''year'' = None \<or> py_not (a ''make'') \<or> py_not (a ''model'')"
  shows "grade conv a w = ((JObj [(''error'', JStr ''Missing params'')], 400), w)"
  using assms by (auto simp: grade_def get_str_def)

lemma grade_unreadable:
  assumes "get_int conv a ''year'' = Some y" and "a ''make'' = Some mk" and "mk \<noteq> ''''"
    and "a ''model'' = Some md" and "md \<noteq> ''''"
    and "source w = NoFile \<or> source w = NoTable"
  shows "fst (grade conv a w) = (JObj [(''error'', JStr ''Server error'')], 500)"
  using assms
  by (auto simp: grade_def get_str_def py_not_def get_db_no_file get_db_no_table
      execute_no_table)

lemma grade_overflow:
  assumes "get_int conv a ''year'' = Some y" and "a ''make'' = Some mk" and "mk \<noteq> ''''"
    and "a ''model'' = Some md" and "md \<noteq> ''''"
    and "source w = AllCars rows" and "\<not> in_int64 y"
  shows "fst (grade conv a w) = (JObj [(''error'', JStr ''Server error'')], 500)"
  using assms
  by (simp add: grade_def get_str_def py_not_def get_db_table execute_select bindable_def)

lemma grade_table:
  assumes "get_int conv a ''year'' = Some y" and "a ''make'' = Some mk" and "mk \<noteq> ''''"
    and "a ''model'' = Some md" and "md \<noteq> ''''"
    and "source w = AllCars rows" and "in_int64 y"
  shows "fst (grade conv a w) =
     (case select_grade y mk md rows of
        None \<Rightarrow> (JObj [(''error'', JStr ''Not found'')], 404)
      | Some (s, c) \<Rightarrow>
          (JObj [(''year'', JInt y), (''make'', JStr mk), (''model'', JStr md),
                 (''score'', py_float s), (''certainty'', py_float c)], 200))"
  using assms
  by (simp add: grade_def get_str_def py_not_def get_db_table execute_select bindable_def
      split: option.split prod.split)


lemma find_SomeD: "find P xs = Some x \<Longrightarrow> P x \<and> x \<in> set xs"
  by (induction xs) (auto split: if_splits)

text \<open>A 200 from \<open>/api/grade\<close> comes from one place: the row found by the query.\<close>

lemma grade_success_row:
  assumes "snd (fst (grade conv a w)) = 200"
  obtains y mk md rows r s c where
    "get_int conv a ''year'' = Some y" and "a ''make'' = Some mk" and "mk \<noteq> ''''"
    and "a ''model'' = Some md" and "md \<noteq> ''''"
    and "source w = AllCars rows" and "in_int64 y"
    and "find (\<lambda>r. year_matches y r \<and> Make r = mk \<and> Model r = md \<and> gradeable r) rows = Some r"
    and "Score r = Some s" and "Certainty r = Some c"
    and "fst (fst (grade conv a w)) =
           JObj [(''year'', JInt y), (''make'', JStr mk), (''model'', JStr md),
                 (''score'', JNum (sql_round1 s)), (''certainty'', JNum (sql_round1 c))]"
proof -
  have ok: "\<not> (get_int conv a ''year'' = None \<or> py_not (a ''make'') \<or> py_not (a ''model''))"
  proof
    assume "get_int conv a ''year'' = None \<or> py_not (a ''make'') \<or> py_not (a ''model'')"
    from grade_guard [OF this, of w] assms show False by simp
  qed
  then obtain y mk md where
    a: "get_int conv a ''year'' = Some y" "a ''make'' = Some mk" "mk \<noteq> ''''"
       "a ''model'' = Some md" "md \<noteq> ''''"
    by (auto simp: py_not_def)
  have "\<not> (source w = NoFile \<or> source w = NoTable)"
  proof
    assume "source w = NoFile \<or> source w = NoTable"
    from grade_unreadable [OF a this] assms show False by simp
  qed
  then obtain rows where t: "source w = AllCars rows"
    by (cases "source w") auto
  have r: "in_int64 y"
  proof (rule ccontr)
    assume "\<not> in_int64 y"
    from grade_overflow [OF a t this] assms show False by simp
  qed
  note g = grade_table [OF a t r]
  let ?P = "\<lambda>r. year_matches y r \<and> Make r = mk \<and> Model r = md \<and> gradeable r"
  obtain r where f: "find ?P rows = Some r"
    using assms g by (cases "find ?P rows") (auto simp: select_grade_def)
  then have "gradeable r"
    by (auto dest: find_SomeD)
  then obtain s c where sc: "Score r = Some s" "Certainty r = Some c"
    by (auto simp: gradeable_def)
  have body: "fst (fst (grade conv a w)) =
          JObj [(''year'', JInt y), (''make'', JStr mk), (''model'', JStr md),
                (''score'', JNum (sql_round1 s)), (''certainty'', JNum (sql_round1 c))]"
    using g f sc by (simp add: select_grade_def ROUND1_def py_float_def)
  from a t r f sc body show ?thesis
    by (rule that)
qed

subsection \<open>Where the conversion of the code agrees with the specification's\<close>

lemma strip_frame:
  "\<exists>a b. t = a @ rev (dropWhile P (rev (dropWhile P t))) @ b \<and>
         (\<forall>c \<in> set a. P c) \<and> (\<forall>c \<in> set b. P c)"
proof -
  let ?u = "dropWhile P t"
  have "rev ?u = takeWhile P (rev ?u) @ dropWhile P (rev ?u)"
    by simp
  then have "?u = rev (dropWhile P (rev ?u)) @ rev (takeWhile P (rev ?u))"
    by (metis rev_append rev_rev_ident)
  then have "t = takeWhile P t @ rev (dropWhile P (rev ?u)) @ rev (takeWhile P (rev ?u))"
    by (metis takeWhile_dropWhile_id)
  moreover have "\<forall>c \<in> set (takeWhile P t). P c"
    by (auto dest: set_takeWhileD)
  moreover have "\<forall>c \<in> set (rev (takeWhile P (rev ?u))). P c"
    by (auto dest: set_takeWhileD)
  ultimately show ?thesis
    by blast
qed

lemma dropWhile_frame:
  "s \<noteq> [] \<Longrightarrow> \<not> P (hd s) \<Longrightarrow> dropWhile P (a @ s @ b) = dropWhile P a @ s @ b"
  by (induction a) (auto simp: neq_Nil_conv)

lemma trim_frame:
  assumes "s \<noteq> []" and "\<not> P (hd s)" and "\<not> P (last s)"
  shows "rev (dropWhile P (rev (dropWhile P (a @ s @ b)))) =
           dropWhile P a @ s @ rev (dropWhile P (rev b))"
proof -
  have "rev (dropWhile P (a @ s @ b)) = rev b @ rev s @ rev (dropWhile P a)"
    using assms by (simp add: dropWhile_frame)
  moreover have "dropWhile P (rev b @ rev s @ rev (dropWhile P a)) =
      dropWhile P (rev b) @ rev s @ rev (dropWhile P a)"
    using assms by (intro dropWhile_frame) (simp_all add: hd_rev)
  ultimately show ?thesis
    by simp
qed

lemma takeWhile_frame:
  "list_all P xs \<Longrightarrow> \<forall>c \<in> set b. \<not> P c \<Longrightarrow> takeWhile P (xs @ b) = xs"
  by (induction xs) (auto simp: takeWhile_eq_Nil_iff)

lemma space_is_no_digit: "sql_isspace c \<Longrightarrow> \<not> is_digit c"
  by (auto simp: sql_isspace_def is_digit_def)

lemma integer_text_no_space:
  assumes "spec_integer_text s"
  shows "s \<noteq> []" and "\<forall>c \<in> set s. \<not> sql_isspace c"
proof -
  show "s \<noteq> []"
    using assms by (auto simp: spec_integer_text_def)
  have sign: "\<not> sql_isspace (CHR ''-'')" "\<not> sql_isspace (CHR ''+'')"
    by (simp_all add: sql_isspace_def)
  have "\<not> sql_isspace c" if "is_digit c" for c
    using that space_is_no_digit by blast
  with assms sign show "\<forall>c \<in> set s. \<not> sql_isspace c"
    by (cases s) (auto simp: spec_integer_text_def list_all_iff split: if_splits)
qed

lemma cast_integer_frame:
  assumes "spec_integer_text s" and "\<forall>c \<in> set a. sql_isspace c" and "\<forall>c \<in> set b. sql_isspace c"
  shows "cast_integer (a @ s @ b) =
           (if hd s = CHR ''-'' then max SMALLEST_INT64 (spec_integer_value s)
            else min LARGEST_INT64 (spec_integer_value s))"
proof -
  from integer_text_no_space [OF assms(1)] obtain c cs where
    s: "s = c # cs" and c: "\<not> sql_isspace c"
    by (cases s) auto
  have z: "dropWhile sql_isspace (a @ s @ b) = s @ b"
    using assms(2) s c by (simp add: dropWhile_append2)
  have nd: "\<forall>x \<in> set b. \<not> is_digit x"
    using assms(3) space_is_no_digit by blast
  show ?thesis
  proof (cases "c = CHR ''-'' \<or> c = CHR ''+''")
    case True
    then have "list_all is_digit cs"
      using assms(1) s by (auto simp: spec_integer_text_def)
    then have "takeWhile is_digit (cs @ b) = cs"
      using nd by (rule takeWhile_frame)
    then show ?thesis
      using True s z by (auto simp: cast_integer_def Let_def spec_integer_value_def)
  next
    case False
    then have "list_all is_digit (c # cs)"
      using assms(1) s by (auto simp: spec_integer_text_def)
    then have "takeWhile is_digit ((c # cs) @ b) = c # cs"
      using nd by (rule takeWhile_frame)
    then show ?thesis
      using False s z by (simp add: cast_integer_def Let_def spec_integer_value_def)
  qed
qed

lemma cast_agrees:
  assumes "spec_parse_year (Some t) = Some y" and "in_int64 y"
  shows "cast_integer (sql_trim t) = y" and "sql_trim t \<noteq> ''''"
proof -
  let ?s = "spec_strip t"
  from assms(1) have it: "spec_integer_text ?s" and y: "y = spec_integer_value ?s"
    by (auto simp: spec_parse_year_def split: if_splits)
  note ns = integer_text_no_space [OF it]
  obtain a b where t: "t = a @ ?s @ b"
    and a: "\<forall>c \<in> set a. sql_isspace c" and b: "\<forall>c \<in> set b. sql_isspace c"
    using strip_frame [of t sql_isspace] unfolding spec_strip_def by blast
  have sp: "\<not> sql_isspace c \<Longrightarrow> c \<noteq> CHR '' ''" for c
    by (auto simp: sql_isspace_def)
  have "hd ?s \<in> set ?s" "last ?s \<in> set ?s"
    using ns(1) by simp_all
  with ns(2) sp have ends: "hd ?s \<noteq> CHR '' ''" "last ?s \<noteq> CHR '' ''"
    by blast+
  let ?a' = "dropWhile (\<lambda>c. c = CHR '' '') a"
  let ?b' = "rev (dropWhile (\<lambda>c. c = CHR '' '') (rev b))"
  have "sql_trim (a @ ?s @ b) = ?a' @ ?s @ ?b'"
    unfolding sql_trim_def using ns(1) ends by (intro trim_frame) simp_all
  with t have trim: "sql_trim t = ?a' @ ?s @ ?b'"
    by simp
  then show "sql_trim t \<noteq> ''''"
    using ns(1) by simp
  have a': "\<forall>c \<in> set ?a'. sql_isspace c"
    using a by (auto dest: set_dropWhileD)
  have b': "\<forall>c \<in> set ?b'. sql_isspace c"
    using b by (auto dest: set_dropWhileD)
  have "cast_integer (sql_trim t) =
      (if hd ?s = CHR ''-'' then max SMALLEST_INT64 y else min LARGEST_INT64 y)"
    unfolding trim y by (rule cast_integer_frame [OF it a' b'])
  with assms(2) show "cast_integer (sql_trim t) = y"
    by (simp add: in_int64_def)
qed

lemma numeric_year_agrees:
  assumes "numeric_year r"
  shows "year_matches y r \<longleftrightarrow> spec_year_matches y r"
proof (cases "ModelYear r")
  case None
  then show ?thesis
    by (simp add: year_matches_def spec_year_matches_def spec_parse_year_def
        CAST_INTEGER_def TRIM_def)
next
  case (Some t)
  with assms obtain v where v: "spec_parse_year (Some t) = Some v" and r: "in_int64 v"
    by (auto simp: numeric_year_def in_int64_def split: option.splits)
  from cast_agrees(1) [OF v r] Some v show ?thesis
    by (auto simp: year_matches_def spec_year_matches_def CAST_INTEGER_def TRIM_def)
qed

lemma numeric_year_not_blank:
  assumes "numeric_year r" and "ModelYear r = Some t"
  shows "sql_trim t \<noteq> ''''"
proof -
  from assms obtain v where v: "spec_parse_year (Some t) = Some v" and r: "in_int64 v"
    by (auto simp: numeric_year_def in_int64_def split: option.splits)
  then show ?thesis
    by (rule cast_agrees(2))
qed

section \<open>Facts about the examples\<close>

lemma civic_year: "year_matches y civic \<longleftrightarrow> y = 2018"
  by (auto simp: civic_def sql_defs)

lemma accord_year: "year_matches y accord \<longleftrightarrow> y = 2019"
  by (auto simp: accord_def sql_defs)

lemma rio_year: "year_matches y rio \<longleftrightarrow> y = 0"
  by (auto simp: rio_def sql_defs)

lemma golf_year: "year_matches y golf \<longleftrightarrow> y = 0"
  by (auto simp: golf_def sql_defs)


lemma examples_gradeable:
  "gradeable civic" "gradeable accord" "gradeable rio" "gradeable golf" "gradeable blank_make"
  by (simp_all add: gradeable_def civic_def accord_def rio_def golf_def blank_make_def)

lemma spec_years:
  "spec_parse_year (ModelYear civic) = Some 2018"
  "spec_parse_year (ModelYear accord) = Some 2019"
  "spec_parse_year (ModelYear blank_make) = Some 2018"
  "spec_parse_year (ModelYear rio) = None"
  "spec_parse_year (ModelYear golf) = None"
  by (simp_all add: civic_def accord_def blank_make_def rio_def golf_def spec_defs)



lemma blank_make_spec_year: "spec_year_matches y blank_make \<longleftrightarrow> y = 2018"
  by (auto simp: spec_year_matches_def spec_years)

lemma rio_spec_year: "\<not> spec_year_matches y rio"
  by (simp add: spec_year_matches_def spec_years)

lemma golf_spec_year: "\<not> spec_year_matches y golf"
  by (simp add: spec_year_matches_def spec_years)


lemma civic_fields: "Make civic = ''Honda''" "Model civic = ''Civic''"
  "Score civic = Some (783 / 100)" "Certainty civic = Some (426 / 100)"
  by (simp_all add: civic_def)

lemma accord_fields: "Make accord = ''Honda''" "Model accord = ''Accord''"
  by (simp_all add: accord_def)

lemma rio_fields: "Make rio = ''Kia''" "Model rio = ''Rio''"
  "Score rio = Some 6" "Certainty rio = Some 3"
  by (simp_all add: rio_def)

lemma golf_fields: "Make golf = ''VW''" "Model golf = ''Golf''"
  by (simp_all add: golf_def)


lemma fresh_source: "source (fresh rows) = AllCars rows"
  by (simp add: fresh_def)

lemma civic_args_get:
  "get_int py_int civic_args ''year'' = Some 2018" "civic_args ''make'' = Some ''Honda''"
  "civic_args ''model'' = Some ''Civic''"
  by (simp_all add: civic_args_def py_defs)



lemma year_zero_args_get:
  "get_int py_int year_zero_args ''year'' = Some 0" "year_zero_args ''make'' = Some ''Kia''"
  "year_zero_args ''model'' = Some ''Rio''"
  by (simp_all add: year_zero_args_def py_defs)

lemma no_model_args_get:
  "get_int py_int no_model_args ''year'' = Some 2018" "no_model_args ''make'' = Some ''Honda''"
  "no_model_args ''model'' = None"
  by (simp_all add: no_model_args_def py_defs)

lemma bad_year_args_get:
  "bad_year_args ''year'' = Some ''20x8''" "py_int ''20x8'' = None"
  "bad_year_args ''make'' = Some ''Honda''" "bad_year_args ''model'' = Some ''Civic''"
  by (simp_all add: bad_year_args_def py_defs)


lemma civic_grade:
  "fst (grade py_int civic_args (fresh [accord, civic])) =
     (JObj [(''year'', JInt 2018), (''make'', JStr ''Honda''), (''model'', JStr ''Civic''),
            (''score'', JNum (78 / 10)), (''certainty'', JNum (43 / 10))], 200)"
proof -
  have "in_int64 2018" by (simp add: db_defs)
  from grade_table [OF civic_args_get(1,2) _ civic_args_get(3) _ fresh_source this,
      of "[accord, civic]"]
  show ?thesis
    by (simp add: select_grade_def accord_year civic_year civic_fields examples_gradeable
        ROUND1_def sql_round1_def floor_eq_iff py_float_def)
qed

section \<open>Records without a usable year\<close>

text \<open>A record whose \<open>ModelYear\<close> is NULL is in no list of years and matches no year.\<close>

lemma null_year_not_listed:
  assumes "\<forall>r \<in> set rows. ModelYear r = None"
  shows "select_years rows = []"
proof -
  have "filter (\<lambda>r. gradeable r \<and> ModelYear r \<noteq> None \<and> TRIM (ModelYear r) \<noteq> Some '''') rows = []"
    using assms by (auto simp: filter_empty_conv)
  then show ?thesis
    by (simp add: select_years_def comprehension_filter)
qed

text \<open>
  Claim C1. The code does otherwise for a year text that is not a number and for one
  that is blank. \<open>CAST('unknown' AS INTEGER)\<close> is 0, not NULL: the record \<open>rio\<close>, whose
  \<open>ModelYear\<close> is \<open>unknown\<close>, puts the year 0 into \<open>/api/years\<close> and is found by
  \<open>/api/makes\<close>, \<open>/api/models\<close> and \<open>/api/grade\<close> when the year asked for is 0. The record
  \<open>golf\<close>, whose \<open>ModelYear\<close> is two spaces, is left out of \<open>/api/years\<close> by the
  \<open>TRIM(ModelYear) <> ''\<close> of that query, but \<open>/api/makes\<close> has no such condition and
  finds it for the year 0. None of this raises.
\<close>

theorem nonnumeric_year_is_year_zero:
  "fst (years (fresh [rio])) = (JArr [JInt 0], 200) \<and>
   fst (makes py_int year_zero_args (fresh [rio])) = (JArr [JStr ''Kia''], 200) \<and>
   fst (models py_int year_zero_args (fresh [rio])) = (JArr [JStr ''Rio''], 200) \<and>
   fst (grade py_int year_zero_args (fresh [rio])) =
     (JObj [(''year'', JInt 0), (''make'', JStr ''Kia''), (''model'', JStr ''Rio''),
            (''score'', JNum 6), (''certainty'', JNum 3)], 200) \<and>
   fst (years (fresh [golf])) = (JArr [], 200) \<and>
   fst (makes py_int year_zero_args (fresh [golf])) = (JArr [JStr ''VW''], 200)"
proof -
  have z: "in_int64 0"
    by (simp add: db_defs)
  have y1: "select_years [rio] = [Some 0]"
    by (simp add: select_years_def rio_def sql_defs)
  have y2: "select_years [golf] = []"
    by (simp add: select_years_def golf_def sql_defs)
  have c1: "fst (years (fresh [rio])) = (JArr [JInt 0], 200)"
    by (simp add: years_table [OF fresh_source] y1)
  have c5: "fst (years (fresh [golf])) = (JArr [], 200)"
    by (simp add: years_table [OF fresh_source] y2)
  have c2: "fst (makes py_int year_zero_args (fresh [rio])) = (JArr [JStr ''Kia''], 200)"
    by (simp add: makes_table [OF year_zero_args_get(1) fresh_source] z select_makes_def
        rio_year examples_gradeable rio_fields)
  have c6: "fst (makes py_int year_zero_args (fresh [golf])) = (JArr [JStr ''VW''], 200)"
    by (simp add: makes_table [OF year_zero_args_get(1) fresh_source] z select_makes_def
        golf_year examples_gradeable golf_fields)
  have c3: "fst (models py_int year_zero_args (fresh [rio])) = (JArr [JStr ''Rio''], 200)"
    by (simp add: models_table [OF year_zero_args_get(1,2) _ fresh_source] z select_models_def
        rio_year examples_gradeable rio_fields)
  have c4: "fst (grade py_int year_zero_args (fresh [rio])) =
     (JObj [(''year'', JInt 0), (''make'', JStr ''Kia''), (''model'', JStr ''Rio''),
            (''score'', JNum 6), (''certainty'', JNum 3)], 200)"
    by (simp add: grade_table [OF year_zero_args_get(1,2) _ year_zero_args_get(3) _ fresh_source z]
        select_grade_def rio_year examples_gradeable rio_fields ROUND1_def sql_round1_def
        floor_eq_iff py_float_def)
  from c1 c2 c3 c4 c5 c6 show ?thesis
    by (intro conjI)
qed

section \<open>ListYears\<close>

text \<open>The list of \<open>/api/years\<close> is strictly descending, whatever the table holds.\<close>

lemma years_descending:
  assumes "source w = AllCars rows"
  shows "\<exists>ys. fst (years w) = (JArr (map JInt ys), 200) \<and>
           set ys = {cast_integer (sql_trim t) | r t.
                       r \<in> set rows \<and> gradeable r \<and> ModelYear r = Some t \<and> sql_trim t \<noteq> ''''} \<and>
           sorted_wrt (\<lambda>x y. y < x) ys \<and> distinct ys"
proof -
  let ?ys = "[y. Some y \<leftarrow> select_years rows]"
  have body: "fst (years w) = (JArr (map JInt ?ys), 200)"
    using assms by (simp add: years_table somes_map [of JInt])
  have mem: "set ?ys = {cast_integer (sql_trim t) | r t.
       r \<in> set rows \<and> gradeable r \<and> ModelYear r = Some t \<and> sql_trim t \<noteq> ''''}"
    unfolding set_somes set_select_years by blast
  have desc: "sorted_wrt (\<lambda>x y. y < x) ?ys"
    unfolding select_years_def by (rule somes_desc) (rule desc_rev_sort_remdups)
  then have "sorted_wrt (<) (rev ?ys)"
    by (simp add: sorted_wrt_rev)
  then have "distinct ?ys"
    using strict_sorted_iff [of "rev ?ys"] by simp
  with body mem desc show ?thesis by blast
qed

text \<open>On a table whose records all have a numeric year, the list is the set of the
  years, read as the specification reads them, of the gradeable records.\<close>

lemma years_on_numeric_years:
  assumes "source w = AllCars rows" and "\<forall>r \<in> set rows. numeric_year r"
  shows "\<exists>ys. fst (years w) = (JArr (map JInt ys), 200) \<and>
           set ys = {y. \<exists>r. r \<in> set rows \<and> gradeable r \<and> spec_year_matches y r} \<and>
           sorted_wrt (\<lambda>x y. y < x) ys \<and> distinct ys"
proof -
  from years_descending [OF assms(1)] obtain ys where
    body: "fst (years w) = (JArr (map JInt ys), 200)"
    and mem: "set ys = {cast_integer (sql_trim t) | r t.
       r \<in> set rows \<and> gradeable r \<and> ModelYear r = Some t \<and> sql_trim t \<noteq> ''''}"
    and ord: "sorted_wrt (\<lambda>x y. y < x) ys" "distinct ys"
    by blast
  have "set ys = {y. \<exists>r. r \<in> set rows \<and> gradeable r \<and> spec_year_matches y r}"
  proof (rule set_eqI, rule iffI)
    fix y
    assume "y \<in> set ys"
    with mem obtain r t where r: "r \<in> set rows" "gradeable r" "ModelYear r = Some t"
      and y: "y = cast_integer (sql_trim t)"
      by blast
    then have "year_matches y r"
      by (simp add: year_matches_def CAST_INTEGER_def TRIM_def)
    with assms(2) r have "spec_year_matches y r"
      by (simp add: numeric_year_agrees)
    with r show "y \<in> {y. \<exists>r. r \<in> set rows \<and> gradeable r \<and> spec_year_matches y r}"
      by blast
  next
    fix y
    assume "y \<in> {y. \<exists>r. r \<in> set rows \<and> gradeable r \<and> spec_year_matches y r}"
    then obtain r where r: "r \<in> set rows" "gradeable r" "spec_year_matches y r"
      by blast
    with assms(2) have n: "numeric_year r" and m: "year_matches y r"
      by (simp_all add: numeric_year_agrees)
    from m obtain t where t: "ModelYear r = Some t" "y = cast_integer (sql_trim t)"
      by (cases "ModelYear r") (auto simp: year_matches_def CAST_INTEGER_def TRIM_def)
    with n have "sql_trim t \<noteq> ''''"
      by (simp add: numeric_year_not_blank)
    with mem r t show "y \<in> set ys"
      by blast
  qed
  with body ord show ?thesis
    by blast
qed

text \<open>
  Claim C2. Read with the specification's year, the claim fails on the code: the only
  record of the table \<open>[rio]\<close> is gradeable and its year text, \<open>unknown\<close>, is no year,
  yet \<open>/api/years\<close> returns the year 0. (The list is strictly descending and without
  duplicates on every table, and it is the claimed set on every table whose records
  all have a numeric year: \<open>years_descending\<close>, \<open>years_on_numeric_years\<close>.)
\<close>

theorem ListYears_lists_a_year_no_record_has:
  "gradeable rio \<and> ModelYear rio = Some ''unknown'' \<and>
   spec_parse_year (ModelYear rio) = None \<and>
   fst (years (fresh [rio])) = (JArr [JInt 0], 200)"
proof -
  have "select_years [rio] = [Some 0]"
    by (simp add: select_years_def rio_def sql_defs)
  then have "fst (years (fresh [rio])) = (JArr [JInt 0], 200)"
    by (simp add: years_table [OF fresh_source])
  then show ?thesis
    by (simp add: examples_gradeable spec_years) (simp add: rio_def)
qed

section \<open>ListMakes\<close>

text \<open>Without a year that parses, \<open>/api/makes\<close> answers at once; on a table whose
  records all have a numeric year it returns the makes the specification asks for.\<close>

lemma makes_on_numeric_years:
  assumes "get_int conv a ''year'' = Some y" and "source w = AllCars rows"
    and "\<forall>r \<in> set rows. numeric_year r"
  shows "\<exists>ms. fst (fst (makes conv a w)) = JArr (map JStr ms) \<and>
           set ms = {Make r | r. r \<in> set rows \<and> gradeable r \<and> spec_year_matches y r} \<and>
           sorted ms \<and> distinct ms"
proof -
  let ?ms = "select_makes y rows"
  have "fst (fst (makes conv a w)) = JArr (map JStr ?ms)"
    using assms by (simp add: makes_table)
  moreover have "sorted ?ms \<and> distinct ?ms"
    by (simp add: select_makes_def)
  moreover have "set ?ms = {Make r | r. r \<in> set rows \<and> gradeable r \<and> spec_year_matches y r}"
    unfolding set_select_makes using assms(3) numeric_year_agrees by blast
  ultimately show ?thesis
    by blast
qed

text \<open>
  Claim C8. Read with the specification's year, the claim fails on the code: the
  year text of \<open>rio\<close> is no year, so no record of \<open>[rio]\<close> has the parsed year 0, yet
  \<open>/api/makes?year=0\<close> returns its make. (A missing or unparsable \<open>year\<close> gives the empty
  array without a query, \<open>makes_no_year\<close>, and on tables whose records all have a
  numeric year the body is as claimed, \<open>makes_on_numeric_years\<close>.)
\<close>

theorem ListMakes_returns_a_make_of_no_such_year:
  "get_int py_int year_zero_args ''year'' = Some 0 \<and>
   spec_parse_year (ModelYear rio) = None \<and> \<not> spec_year_matches 0 rio \<and>
   fst (makes py_int year_zero_args (fresh [rio])) = (JArr [JStr ''Kia''], 200)"
proof -
  have z: "in_int64 0"
    by (simp add: db_defs)
  have "fst (makes py_int year_zero_args (fresh [rio])) = (JArr [JStr ''Kia''], 200)"
    by (simp add: makes_table [OF year_zero_args_get(1) fresh_source] z select_makes_def
        rio_year examples_gradeable rio_fields)
  then show ?thesis
    by (simp add: year_zero_args_get spec_years rio_spec_year)
qed

section \<open>ListModels\<close>




section \<open>GetGrade: NotFound\<close>





section \<open>GetGrade: InvalidRequest\<close>

text \<open>
  Claim C5. \<open>/api/grade\<close> answers 400 exactly when \<open>year\<close> is missing or is rejected by
  the conversion, or \<open>make\<close> is missing or empty, or \<open>model\<close> is missing or empty; and a
  400 has the body \<open>{"error": "Missing params"}\<close> and leaves the state as it was:
  nothing was handed to \<open>execute\<close>. This holds whatever the data source is and
  whatever the conversion accepts.
\<close>

theorem GetGrade_missing_params_iff:
  "(snd (fst (grade conv a w)) = 400 \<longleftrightarrow>
      a ''year'' = None \<or> (\<exists>v. a ''year'' = Some v \<and> conv v = None) \<or>
      a ''make'' = None \<or> a ''make'' = Some '''' \<or>
      a ''model'' = None \<or> a ''model'' = Some '''') \<and>
   (snd (fst (grade conv a w)) = 400 \<longrightarrow>
      grade conv a w = ((JObj [(''error'', JStr ''Missing params'')], 400), w))"
proof -
  let ?missing = "get_int conv a ''year'' = None \<or> py_not (a ''make'') \<or> py_not (a ''model'')"
  have words: "?missing \<longleftrightarrow>
      a ''year'' = None \<or> (\<exists>v. a ''year'' = Some v \<and> conv v = None) \<or>
      a ''make'' = None \<or> a ''make'' = Some '''' \<or>
      a ''model'' = None \<or> a ''model'' = Some ''''"
    by (simp add: get_int_None_iff py_not_def disj_ac)
  have other: "snd (fst (grade conv a w)) \<noteq> 400" if "\<not> ?missing"
    using that
    by (auto simp: grade_def get_str_def Let_def split_beta
        split: sum.split option.split)
  have "snd (fst (grade conv a w)) = 400 \<longleftrightarrow> ?missing"
    using other grade_guard [of conv a w] by auto
  moreover have "grade conv a w = ((JObj [(''error'', JStr ''Missing params'')], 400), w)"
    if "snd (fst (grade conv a w)) = 400"
    using that other grade_guard [of conv a w] by blast
  ultimately show ?thesis
    using words by blast
qed

theorem GetGrade_missing_params_iff_witness:
  "no_model_args ''model'' = None \<and>
   snd (fst (grade py_int no_model_args unopened)) = 400 \<and>
   grade py_int no_model_args unopened =
     ((JObj [(''error'', JStr ''Missing params'')], 400), unopened) \<and>
   bad_year_args ''year'' = Some ''20x8'' \<and> py_int ''20x8'' = None \<and>
   snd (fst (grade py_int bad_year_args (fresh [accord, civic]))) = 400 \<and>
   grade py_int bad_year_args (fresh [accord, civic]) =
     ((JObj [(''error'', JStr ''Missing params'')], 400), fresh [accord, civic]) \<and>
   snd (fst (grade py_int civic_args (fresh [accord, civic]))) \<noteq> 400"
proof -
  have m: "no_model_args ''model'' = None"
    by (rule no_model_args_get)
  note inst = GetGrade_missing_params_iff [of py_int no_model_args unopened]
  from inst m have s: "snd (fst (grade py_int no_model_args unopened)) = 400"
    by blast
  with inst have g: "grade py_int no_model_args unopened =
      ((JObj [(''error'', JStr ''Missing params'')], 400), unopened)"
    by blast
  have y: "bad_year_args ''year'' = Some ''20x8''" "py_int ''20x8'' = None"
    by (rule bad_year_args_get)+
  then have "\<exists>v. bad_year_args ''year'' = Some v \<and> py_int v = None"
    by (intro exI conjI)
  with GetGrade_missing_params_iff [of py_int bad_year_args "fresh [accord, civic]"]
  have s': "snd (fst (grade py_int bad_year_args (fresh [accord, civic]))) = 400"
    by (elim conjE) simp
  with GetGrade_missing_params_iff [of py_int bad_year_args "fresh [accord, civic]"]
  have g': "grade py_int bad_year_args (fresh [accord, civic]) =
     ((JObj [(''error'', JStr ''Missing params'')], 400), fresh [accord, civic])"
    by (elim conjE impE)
  have "\<not> (civic_args ''year'' = None \<or> (\<exists>v. civic_args ''year'' = Some v \<and> py_int v = None) \<or>
      civic_args ''make'' = None \<or> civic_args ''make'' = Some '''' \<or>
      civic_args ''model'' = None \<or> civic_args ''model'' = Some '''')"
    using civic_args_get by (auto simp: get_int_def civic_args_def)
  with GetGrade_missing_params_iff [of py_int civic_args "fresh [accord, civic]"]
  have n: "snd (fst (grade py_int civic_args (fresh [accord, civic]))) \<noteq> 400"
    by blast
  from m s g y s' g' n show ?thesis
    by (intro conjI)
qed

section \<open>GetGrade: score and certainty are never null\<close>

text \<open>
  Claim C10. The row the grade query returns has no NULL column: the query keeps
  only records whose \<open>Score\<close> and \<open>Certainty\<close> are not NULL, and \<open>ROUND\<close> of a value is a
  value. So in every 200 answer of \<open>/api/grade\<close> the fields \<open>score\<close> and \<open>certainty\<close> are
  numbers: the \<open>else None\<close> branches are not taken.
\<close>

theorem GetGrade_fields_not_null:
  "(\<forall>y mk md rows s c. select_grade y mk md rows = Some (s, c) \<longrightarrow> s \<noteq> None \<and> c \<noteq> None) \<and>
   (snd (fst (grade conv a w)) = 200 \<longrightarrow>
      (\<exists>y mk md s c.
         fst (fst (grade conv a w)) =
           JObj [(''year'', JInt y), (''make'', JStr mk), (''model'', JStr md),
                 (''score'', JNum s), (''certainty'', JNum c)]))"
proof (intro conjI allI impI)
  fix y mk md rows s c
  assume "select_grade y mk md rows = Some (s, c)"
  then obtain r where
    "find (\<lambda>r. year_matches y r \<and> Make r = mk \<and> Model r = md \<and> gradeable r) rows = Some r"
    and sc: "s = ROUND1 (Score r)" "c = ROUND1 (Certainty r)"
    by (auto simp: select_grade_def)
  then have "gradeable r"
    by (auto dest: find_SomeD)
  with sc show "s \<noteq> None" and "c \<noteq> None"
    by (auto simp: gradeable_def ROUND1_def)
next
  assume "snd (fst (grade conv a w)) = 200"
  then obtain y mk md rows r s c where
    "get_int conv a ''year'' = Some y" and "a ''make'' = Some mk" and "mk \<noteq> ''''"
    and "a ''model'' = Some md" and "md \<noteq> ''''"
    and "source w = AllCars rows" and "in_int64 y"
    and "find (\<lambda>r. year_matches y r \<and> Make r = mk \<and> Model r = md \<and> gradeable r) rows = Some r"
    and "Score r = Some s" and "Certainty r = Some c"
    and body: "fst (fst (grade conv a w)) =
           JObj [(''year'', JInt y), (''make'', JStr mk), (''model'', JStr md),
                 (''score'', JNum (sql_round1 s)), (''certainty'', JNum (sql_round1 c))]"
    by (rule grade_success_row)
  show "\<exists>y mk md s c.
         fst (fst (grade conv a w)) =
           JObj [(''year'', JInt y), (''make'', JStr mk), (''model'', JStr md),
                 (''score'', JNum s), (''certainty'', JNum c)]"
    by (intro exI) (rule body)
qed

theorem GetGrade_fields_not_null_witness:
  "select_grade 2018 ''Honda'' ''Civic'' [accord, civic] =
     Some (Some (78 / 10), Some (43 / 10)) \<and>
   Some (78 / 10 :: rat) \<noteq> None \<and> Some (43 / 10 :: rat) \<noteq> None \<and>
   snd (fst (grade py_int civic_args (fresh [accord, civic]))) = 200 \<and>
   (\<exists>y mk md s c.
      fst (fst (grade py_int civic_args (fresh [accord, civic]))) =
        JObj [(''year'', JInt y), (''make'', JStr mk), (''model'', JStr md),
              (''score'', JNum s), (''certainty'', JNum c)])"
proof -
  note inst = GetGrade_fields_not_null [of py_int civic_args "fresh [accord, civic]"]
  have q: "select_grade 2018 ''Honda'' ''Civic'' [accord, civic] =
      Some (Some (78 / 10), Some (43 / 10))"
    by (simp add: select_grade_def accord_year civic_year civic_fields examples_gradeable
        ROUND1_def sql_round1_def floor_eq_iff)
  with inst have n: "Some (78 / 10 :: rat) \<noteq> None \<and> Some (43 / 10 :: rat) \<noteq> None"
    by blast
  have h: "snd (fst (grade py_int civic_args (fresh [accord, civic]))) = 200"
    using civic_grade by simp
  with inst have b: "\<exists>y mk md s c.
      fst (fst (grade py_int civic_args (fresh [accord, civic]))) =
        JObj [(''year'', JInt y), (''make'', JStr mk), (''model'', JStr md),
              (''score'', JNum s), (''certainty'', JNum c)]"
    by blast
  from q n h b show ?thesis
    by (intro conjI) simp_all
qed

section \<open>Failure of the data access\<close>

lemma raises_iff:
  "raises q w \<longleftrightarrow> source w = NoFile \<or> source w = NoTable \<or> \<not> bindable q \<or> writes q"
  by (cases "source w") (auto simp: raises_def get_db_def connect_def execute_def Let_def)

lemma years_raises: "raises SelectYears w \<Longrightarrow> fst (years w) = (JArr [], 500)"
  by (cases "source w")
    (simp_all add: raises_iff years_def get_db_def connect_def execute_def bindable_def)

lemma makes_raises:
  "get_int conv a ''year'' = Some y \<Longrightarrow> raises (SelectMakes y) w \<Longrightarrow>
   fst (makes conv a w) = (JArr [], 500)"
  by (cases "source w")
    (simp_all add: raises_iff makes_def get_db_def connect_def execute_def)

lemma models_raises:
  "get_int conv a ''year'' = Some y \<Longrightarrow> a ''make'' = Some mk \<Longrightarrow> mk \<noteq> '''' \<Longrightarrow>
   raises (SelectModels y mk) w \<Longrightarrow> fst (models conv a w) = (JArr [], 500)"
  by (cases "source w")
    (simp_all add: raises_iff models_def get_str_def py_not_def get_db_def connect_def
      execute_def)

lemma grade_raises:
  "get_int conv a ''year'' = Some y \<Longrightarrow> a ''make'' = Some mk \<Longrightarrow> mk \<noteq> '''' \<Longrightarrow>
   a ''model'' = Some md \<Longrightarrow> md \<noteq> '''' \<Longrightarrow>
   raises (SelectGrade y mk md) w \<Longrightarrow>
   fst (grade conv a w) = (JObj [(''error'', JStr ''Server error'')], 500)"
  by (cases "source w")
    (simp_all add: raises_iff grade_def get_str_def py_not_def get_db_def connect_def
      execute_def)

text \<open>
  Claim C7. Whenever the data access of a handler raises (\<open>get_db\<close> cannot open the
  file, or \<open>execute\<close> raises on the statement the handler runs), the answer has status
  500 and a fixed body: the empty array for \<open>/api/years\<close>, \<open>/api/makes\<close> and
  \<open>/api/models\<close>, and \<open>{"error": "Server error"}\<close> for \<open>/api/grade\<close>. The body does not
  depend on what was raised or on the table. (A request that fails validation never
  reaches the data access.)
\<close>

theorem failure_gives_generic_500:
  "(raises SelectYears w \<longrightarrow> fst (years w) = (JArr [], 500)) \<and>
   (\<forall>y. get_int conv a ''year'' = Some y \<and> raises (SelectMakes y) w \<longrightarrow>
      fst (makes conv a w) = (JArr [], 500)) \<and>
   (\<forall>y mk. get_int conv a ''year'' = Some y \<and> a ''make'' = Some mk \<and> mk \<noteq> '''' \<and>
        raises (SelectModels y mk) w \<longrightarrow>
      fst (models conv a w) = (JArr [], 500)) \<and>
   (\<forall>y mk md. get_int conv a ''year'' = Some y \<and> a ''make'' = Some mk \<and> mk \<noteq> '''' \<and>
        a ''model'' = Some md \<and> md \<noteq> '''' \<and> raises (SelectGrade y mk md) w \<longrightarrow>
      fst (grade conv a w) = (JObj [(''error'', JStr ''Server error'')], 500))"
  by (intro conjI allI impI)
    (auto intro: years_raises makes_raises models_raises grade_raises)

theorem failure_gives_generic_500_witness:
  "raises SelectYears unopened \<and>
   fst (years unopened) = (JArr [], 500) \<and>
   get_int py_int civic_args ''year'' = Some 2018 \<and> raises (SelectMakes 2018) unopened \<and>
   fst (makes py_int civic_args unopened) = (JArr [], 500) \<and>
   civic_args ''make'' = Some ''Honda'' \<and> ''Honda'' \<noteq> '''' \<and>
   raises (SelectModels 2018 ''Honda'') unopened \<and>
   fst (models py_int civic_args unopened) = (JArr [], 500) \<and>
   civic_args ''model'' = Some ''Civic'' \<and> ''Civic'' \<noteq> '''' \<and>
   raises (SelectGrade 2018 ''Honda'' ''Civic'') unopened \<and>
   fst (grade py_int civic_args unopened) = (JObj [(''error'', JStr ''Server error'')], 500)"
proof -
  have r: "raises q unopened" for q
    by (simp add: raises_iff unopened_def)
  have a: "get_int py_int civic_args ''year'' = Some 2018" "civic_args ''make'' = Some ''Honda''"
    "''Honda'' \<noteq> ''''" "civic_args ''model'' = Some ''Civic''" "''Civic'' \<noteq> ''''"
    by (simp_all add: civic_args_get)
  note inst = failure_gives_generic_500 [of unopened py_int civic_args]
  from inst have "raises SelectYears unopened \<longrightarrow> fst (years unopened) = (JArr [], 500)"
    by (rule conjunct1)
  with r have c1: "fst (years unopened) = (JArr [], 500)"
    by (rule rev_mp)
  from inst have
    "get_int py_int civic_args ''year'' = Some 2018 \<and> raises (SelectMakes 2018) unopened \<longrightarrow>
      fst (makes py_int civic_args unopened) = (JArr [], 500)"
    by (elim conjE allE)
  with a r have c2: "fst (makes py_int civic_args unopened) = (JArr [], 500)"
    by simp
  from inst have
    "get_int py_int civic_args ''year'' = Some 2018 \<and> civic_args ''make'' = Some ''Honda'' \<and>
      ''Honda'' \<noteq> '''' \<and> raises (SelectModels 2018 ''Honda'') unopened \<longrightarrow>
      fst (models py_int civic_args unopened) = (JArr [], 500)"
    by (elim conjE allE)
  with a r have c3: "fst (models py_int civic_args unopened) = (JArr [], 500)"
    by simp
  from inst have
    "get_int py_int civic_args ''year'' = Some 2018 \<and> civic_args ''make'' = Some ''Honda'' \<and>
      ''Honda'' \<noteq> '''' \<and> civic_args ''model'' = Some ''Civic'' \<and> ''Civic'' \<noteq> '''' \<and>
      raises (SelectGrade 2018 ''Honda'' ''Civic'') unopened \<longrightarrow>
      fst (grade py_int civic_args unopened) = (JObj [(''error'', JStr ''Server error'')], 500)"
    by (elim conjE allE)
  with a r have c4: "fst (grade py_int civic_args unopened) =
      (JObj [(''error'', JStr ''Server error'')], 500)"
    by simp
  from r a c1 c2 c3 c4 show ?thesis
    by (intro conjI)
qed

section \<open>No route changes the data source\<close>








lemma execute_log_select:
  "\<not> writes q \<Longrightarrow> filter writes (executed (snd (execute db q sel w))) = filter writes (executed w)"
  by (simp add: execute_log)






















text \<open>A connection that is not read-only does change the table.\<close>

lemma read_write_connection_changes_the_table:
  "source (snd (execute ReadWrite DeleteAll sel (fresh [accord, civic]))) = AllCars []"
  "source (snd (execute ReadWrite (Insert rio) sel (fresh [civic]))) = AllCars [civic, rio]"
  by (simp_all add: execute_def Let_def fresh_def bindable_def)



end
